theory Spec2Isabelle
  imports Main "HOL-Library.Sublist"
begin

section \<open>The chat relay of bot.py\<close>

text \<open>
  bot.py relays a Telegram text message to one of two language-model providers and sends
  the generated text back. Everything outside the file (the Telegram client, the OpenAI
  client, the Gemini model object, the process environment) is a parameter of the model:
  a \<open>world\<close> gives the outcome of every external call, an \<open>environment\<close> gives the
  variables read at start-up. A function of the source returns the list of the external
  effects it performed, in order, together with its own outcome: a value, or the
  exception that leaves it.
\<close>

subsection \<open>Exceptions and outcomes\<close>

text \<open>
  The exceptions are instances of subclasses of Python's \<open>Exception\<close>: the ones the
  interpreter raises in the code of bot.py, and \<open>LibraryError\<close> for whatever a library
  call raises (transport and API failures), with its message.
\<close>

datatype exn =
    TypeError
  | IndexError
  | AttributeError
  | NameError
  | UnboundLocalError
  | LibraryError string

datatype 'a outcome = Raises exn | Returns 'a

text \<open>
  The value of a call expression that is then awaited: a coroutine, whose completion has
  an outcome, or an object that is not awaitable. \<open>await\<close> on the latter raises
  TypeError.
\<close>

datatype 'a py_value = Coroutine "'a outcome" | Object 'a

fun await :: "'a py_value \<Rightarrow> 'a outcome" where
  "await (Coroutine r) = r"
| "await (Object _) = Raises TypeError"

subsection \<open>Python string methods\<close>

text \<open>
  Strings are lists of 8-bit characters, read as the code points below 256.
  \<open>isspace\<close> holds for the code points 9 to 13, 28 to 32, 133 and 160.
\<close>

definition isspace :: "char \<Rightarrow> bool" where
  "isspace c = (let n = (of_char c :: nat) in
     (9 \<le> n \<and> n \<le> 13) \<or> (28 \<le> n \<and> n \<le> 32) \<or> n = 133 \<or> n = 160)"

definition strip :: "string \<Rightarrow> string" where
  "strip s = rev (dropWhile isspace (rev (dropWhile isspace s)))"

definition lower_char :: "char \<Rightarrow> char" where
  "lower_char c = (let n = (of_char c :: nat) in
     if (65 \<le> n \<and> n \<le> 90) \<or> (192 \<le> n \<and> n \<le> 222 \<and> n \<noteq> 215)
     then char_of (n + 32) else c)"

text \<open>
  Upper case of a single character, where the result is again below 256 (the code
  points 181, 223 and 255 have none there and are left as they are).
\<close>

definition upper_char :: "char \<Rightarrow> char" where
  "upper_char c = (let n = (of_char c :: nat) in
     if (97 \<le> n \<and> n \<le> 122) \<or> (224 \<le> n \<and> n \<le> 254 \<and> n \<noteq> 247)
     then char_of (n - 32) else c)"

definition lower :: "string \<Rightarrow> string" where
  "lower s = map lower_char s"

fun capitalize :: "string \<Rightarrow> string" where
  "capitalize [] = []"
| "capitalize (c # cs) = upper_char c # map lower_char cs"

subsection \<open>The provider responses\<close>

text \<open>The OpenAI chat completion: \<open>response.choices[0].message.content\<close>.\<close>

record chat_completion_message =
  content :: "string option"

record choice =
  message :: chat_completion_message

record chat_completion =
  choices :: "choice list"

text \<open>The request of \<open>chat.completions.create\<close>: the model and the (role, content) messages.\<close>

record chat_request =
  model :: string
  messages :: "(string \<times> string) list"

text \<open>
  The Gemini response. An attribute that \<open>hasattr\<close> tests is an option (None: the
  attribute is missing). A prompt feedback or block reason that is None is one that
  Python takes as false (None, or the enum member of value 0); a block reason that
  counts as true has a \<open>name\<close>.
\<close>

record part =
  part_text :: string

record gemini_content =
  parts :: "part list option"

record candidate =
  candidate_content :: "gemini_content option"

datatype block_reason = BlockReason (name: string)

record prompt_feedback_t =
  block_reason :: "block_reason option"

record generate_content_response =
  candidates :: "candidate list"
  prompt_feedback :: "prompt_feedback_t option"

subsection \<open>The Telegram update\<close>

record telegram_message =
  message_text :: "string option"

record update =
  update_message :: telegram_message
  effective_chat_id :: int

subsection \<open>Effects\<close>

datatype level = INFO | WARNING | ERROR

text \<open>
  A log message is the f-string of the source, with the objects that the libraries
  render (an exception, a candidate, an update) kept as they are.
\<close>

datatype log_part = S string | E exn | C candidate | U update

datatype event =
    Log level "log_part list"
  | Create chat_request
  | GenerateContent string string
  | SendChatAction int string "unit outcome"
  | ReplyText string "unit outcome"

subsection \<open>Globals and the world\<close>

text \<open>
  \<open>openai.OpenAI\<close> is the synchronous client: its \<open>create\<close> performs the request and
  returns the completion itself. \<open>openai.AsyncOpenAI\<close> returns a coroutine.
\<close>

datatype client = OpenAI | AsyncOpenAI

text \<open>The module-level names that the handlers read; None is a name that was never bound.\<close>

record globals =
  AI_PROVIDER :: string
  openai_client :: "client option"
  OPENAI_MODEL :: "string option"
  gemini_model :: "string option"
  TELEGRAM_BOT_TOKEN :: string

text \<open>
  The outcome of each external call: the chat-completions request, the Gemini
  \<open>generate_content_async\<close> of a model on a prompt, the typing indicator, and the
  \<open>reply_text\<close> calls of one handler run (numbered from 0).
\<close>

record world =
  chat_completions :: "chat_request \<Rightarrow> chat_completion outcome"
  generate_content_async :: "string \<Rightarrow> string \<Rightarrow> generate_content_response outcome"
  send_chat_action :: "int \<Rightarrow> string \<Rightarrow> unit outcome"
  reply_text :: "nat \<Rightarrow> string \<Rightarrow> unit outcome"

fun create :: "client \<Rightarrow> world \<Rightarrow> chat_request \<Rightarrow> chat_completion py_value outcome" where
  "create OpenAI w req =
     (case chat_completions w req of
        Raises e \<Rightarrow> Raises e
      | Returns r \<Rightarrow> Returns (Object r))"
| "create AsyncOpenAI w req = Returns (Coroutine (chat_completions w req))"

subsection \<open>get_ai_response\<close>

definition COULD_NOT_GENERATE :: string where
  "COULD_NOT_GENERATE = ''Sorry, I couldn't generate a text response from that.''"

definition EMPTY_RESPONSE :: string where
  "EMPTY_RESPONSE = ''Sorry, I received an empty response from the AI.''"

definition blocked_message :: "block_reason \<Rightarrow> string" where
  "blocked_message br =
     ''My response was blocked due to: '' @ name br @ ''. Please rephrase your request.''"

definition failure_message :: "string \<Rightarrow> string" where
  "failure_message provider =
     ''Sorry, I encountered an error trying to reach the AI ('' @ capitalize provider
       @ ''). Please try again later.''"

text \<open>Lines 92 to 103: the OpenAI branch of the try block.\<close>

definition openai_branch :: "globals \<Rightarrow> world \<Rightarrow> string \<Rightarrow> event list \<times> string outcome" where
  "openai_branch g w user_message =
     (case openai_client g of
        None \<Rightarrow> ([], Raises NameError)
      | Some cl \<Rightarrow>
         (case OPENAI_MODEL g of
            None \<Rightarrow> ([], Raises NameError)
          | Some m \<Rightarrow>
             (let req = \<lparr>model = m, messages = [(''user'', user_message)]\<rparr> in
              case create cl w req of
                Raises e \<Rightarrow> ([Create req], Raises e)
              | Returns v \<Rightarrow>
                 (case await v of
                    Raises e \<Rightarrow> ([Create req], Raises e)
                  | Returns response \<Rightarrow>
                     (case choices response of
                        [] \<Rightarrow> ([Create req], Raises IndexError)
                      | c # _ \<Rightarrow>
                         (case content (message c) of
                            None \<Rightarrow> ([Create req], Raises AttributeError)
                          | Some s \<Rightarrow> ([Create req], Returns (strip s))))))))"

text \<open>
  The condition of line 120, \<open>response.prompt_feedback and
  response.prompt_feedback.block_reason\<close>: the block reason when both count as true.
\<close>

definition blocked_by :: "generate_content_response \<Rightarrow> block_reason option" where
  "blocked_by response =
     (case prompt_feedback response of
        None \<Rightarrow> None
      | Some pf \<Rightarrow> block_reason pf)"

text \<open>Lines 111 to 125: what the Gemini branch makes of a response, with its warning.\<close>

definition gemini_text :: "generate_content_response \<Rightarrow> event list \<times> string" where
  "gemini_text response =
     (case candidates response of
        c # _ \<Rightarrow>
         (case candidate_content c of
            None \<Rightarrow>
              ([Log WARNING [S ''Gemini response structure unexpected or empty: '', C c]],
               COULD_NOT_GENERATE)
          | Some ct \<Rightarrow>
             (case parts ct of
                None \<Rightarrow>
                  ([Log WARNING [S ''Gemini response structure unexpected or empty: '', C c]],
                   COULD_NOT_GENERATE)
              | Some [] \<Rightarrow>
                  ([Log WARNING [S ''Gemini response structure unexpected or empty: '', C c]],
                   COULD_NOT_GENERATE)
              | Some (p # _) \<Rightarrow> ([], part_text p)))
      | [] \<Rightarrow>
         (case blocked_by response of
            None \<Rightarrow>
              ([Log WARNING [S ''Gemini returned no candidates and no block reason.'']],
               EMPTY_RESPONSE)
          | Some br \<Rightarrow>
              ([Log WARNING [S (''Gemini request blocked: '' @ name br)]],
               blocked_message br)))"

text \<open>Lines 109 to 125: the Gemini branch of the try block.\<close>

definition gemini_branch :: "globals \<Rightarrow> world \<Rightarrow> string \<Rightarrow> event list \<times> string outcome" where
  "gemini_branch g w user_message =
     (case gemini_model g of
        None \<Rightarrow> ([], Raises NameError)
      | Some m \<Rightarrow>
         (case generate_content_async w m user_message of
            Raises e \<Rightarrow> ([GenerateContent m user_message], Raises e)
          | Returns response \<Rightarrow>
             (GenerateContent m user_message # fst (gemini_text response),
              Returns (snd (gemini_text response)))))"

text \<open>
  Lines 90 to 129, the body of the try block. With a provider name that is neither
  of the two, \<open>ai_response\<close> is read unbound at line 128.
\<close>

definition try_body :: "globals \<Rightarrow> world \<Rightarrow> string \<Rightarrow> event list \<times> string outcome" where
  "try_body g w user_message =
     (case (if AI_PROVIDER g = ''openai'' then openai_branch g w user_message
            else if AI_PROVIDER g = ''gemini'' then gemini_branch g w user_message
            else ([], Raises UnboundLocalError)) of
        (evs, Raises e) \<Rightarrow> (evs, Raises e)
      | (evs, Returns ai_response) \<Rightarrow>
          (evs @ [Log INFO [S (''AI Response ('' @ AI_PROVIDER g @ ''): ''
                               @ take 50 ai_response @ ''...'')]],
           Returns ai_response))"

text \<open>Lines 85 to 133: the log line, the try block and its \<open>except Exception\<close> handler.\<close>

definition get_ai_response :: "globals \<Rightarrow> world \<Rightarrow> string \<Rightarrow> event list \<times> string outcome" where
  "get_ai_response g w user_message =
     (let start = Log INFO [S (''Sending to AI ('' @ AI_PROVIDER g @ ''): ''
                               @ take 50 user_message @ ''...'')] in
      case try_body g w user_message of
        (evs, Returns ai_response) \<Rightarrow> (start # evs, Returns ai_response)
      | (evs, Raises e) \<Rightarrow>
          (start # evs
             @ [Log ERROR [S (''Error calling '' @ capitalize (AI_PROVIDER g) @ '' API: ''), E e]],
           Returns (failure_message (AI_PROVIDER g))))"

subsection \<open>handle_message\<close>

definition TYPING :: string where
  "TYPING = ''typing''"

definition SEND_FAILED :: string where
  "SEND_FAILED = ''Sorry, I couldn't send the response back. Please try again.''"

text \<open>
  Lines 153 to 158: the reply, and in the except handler the log line and the second
  \<open>reply_text\<close>, which no try block encloses.
\<close>

definition send_back :: "world \<Rightarrow> string \<Rightarrow> event list \<times> unit outcome" where
  "send_back w ai_response =
     (case reply_text w 0 ai_response of
        Returns u \<Rightarrow> ([ReplyText ai_response (Returns u)], Returns ())
      | Raises e \<Rightarrow>
          ([ReplyText ai_response (Raises e),
            Log ERROR [S ''Error sending message back to Telegram: '', E e],
            ReplyText SEND_FAILED (reply_text w 1 SEND_FAILED)],
           reply_text w 1 SEND_FAILED))"

text \<open>Lines 138 to 158.\<close>

definition handle_message :: "globals \<Rightarrow> world \<Rightarrow> update \<Rightarrow> event list \<times> unit outcome" where
  "handle_message g w upd =
     (let user_message = message_text (update_message upd);
          chat_id = effective_chat_id upd in
      case user_message of
        None \<Rightarrow> ([], Returns ())
      | Some [] \<Rightarrow> ([], Returns ())
      | Some (c # cs) \<Rightarrow>
         (case send_chat_action w chat_id TYPING of
            Raises e \<Rightarrow> ([SendChatAction chat_id TYPING (Raises e)], Raises e)
          | Returns u \<Rightarrow>
             (case get_ai_response g w (c # cs) of
                (evs, Raises e) \<Rightarrow> (SendChatAction chat_id TYPING (Returns u) # evs, Raises e)
              | (evs, Returns ai_response) \<Rightarrow>
                  (SendChatAction chat_id TYPING (Returns u) # evs @ fst (send_back w ai_response),
                   snd (send_back w ai_response)))))"

text \<open>Lines 162 to 164.\<close>

definition error_handler :: "update \<Rightarrow> exn \<Rightarrow> event list" where
  "error_handler upd e = [Log ERROR [S ''Update '', U upd, S '' caused error '', E e]]"

text \<open>
  Reading a list of effects: the \<open>reply_text\<close> calls that were made, and those that
  returned, which are the replies that were sent.
\<close>

fun delivered :: "event \<Rightarrow> bool" where
  "delivered (ReplyText s (Returns u)) = True"
| "delivered ev = False"

fun attempted :: "event \<Rightarrow> bool" where
  "attempted (ReplyText s r) = True"
| "attempted ev = False"

subsection \<open>Start-up and the process\<close>

text \<open>
  The process environment after \<open>load_dotenv()\<close>, and which of the two provider
  libraries can be imported.
\<close>

record environment =
  environ :: "string \<rightharpoonup> string"
  installed :: "string \<Rightarrow> bool"

definition getenv :: "environment \<Rightarrow> string \<Rightarrow> string \<Rightarrow> string" where
  "getenv env key dflt = (case environ env key of None \<Rightarrow> dflt | Some v \<Rightarrow> v)"

text \<open>\<open>not v\<close> for the value of \<open>os.getenv(key)\<close>: the variable is unset or empty.\<close>

definition missing :: "environment \<Rightarrow> string \<Rightarrow> bool" where
  "missing env key = (case environ env key of None \<Rightarrow> True | Some v \<Rightarrow> v = [])"

text \<open>
  The module either calls \<open>exit()\<close> or reaches \<open>main()\<close> with its globals bound; either
  way with the lines it has printed so far.
\<close>

datatype startup_result = Exit "string list" | Started "string list" globals

text \<open>Lines 59 to 62.\<close>

definition telegram_setup :: "environment \<Rightarrow> string list \<Rightarrow> globals \<Rightarrow> startup_result" where
  "telegram_setup env out g =
     (if missing env ''TELEGRAM_BOT_TOKEN''
      then Exit (out @ [''Error: TELEGRAM_BOT_TOKEN not found in .env file.''])
      else Started out (g\<lparr>TELEGRAM_BOT_TOKEN := getenv env ''TELEGRAM_BOT_TOKEN'' []\<rparr>))"

text \<open>Lines 16 to 62.\<close>

definition startup :: "environment \<Rightarrow> startup_result" where
  "startup env =
     (let provider = lower (getenv env ''AI_PROVIDER'' ''openai'');
          g = \<lparr>AI_PROVIDER = provider, openai_client = None, OPENAI_MODEL = None,
               gemini_model = None, TELEGRAM_BOT_TOKEN = []\<rparr> in
      if provider = ''openai'' then
        (if \<not> installed env ''openai''
         then Exit [''OpenAI library not installed. Please run: pip install openai'']
         else if missing env ''OPENAI_API_KEY''
         then Exit [''OPENAI_API_KEY not found in .env file.'']
         else
           (let m = getenv env ''OPENAI_MODEL'' ''gpt-3.5-turbo'' in
            telegram_setup env [''Using AI Provider: OpenAI (Model: '' @ m @ '')'']
              (g\<lparr>openai_client := Some OpenAI, OPENAI_MODEL := Some m\<rparr>)))
      else if provider = ''gemini'' then
        (if \<not> installed env ''google.generativeai''
         then Exit [''Google Generative AI library not installed. Please run: pip install google-generativeai'']
         else if missing env ''GOOGLE_API_KEY''
         then Exit [''GOOGLE_API_KEY not found in .env file for Gemini.'']
         else
           (let m = getenv env ''GEMINI_MODEL'' ''gemini-pro'' in
            telegram_setup env [''Using AI Provider: Google Gemini (Model: '' @ m @ '')'']
              (g\<lparr>gemini_model := Some m\<rparr>)))
      else
        Exit [''Error: Invalid AI_PROVIDER specified in .env: '' @ provider
                @ ''. Choose 'openai' or 'gemini'.''])"

text \<open>
  One update that the application routes to \<open>handle_message\<close>, with the world it meets:
  an exception that leaves the handler goes to \<open>error_handler\<close>.
\<close>

definition process_update :: "globals \<Rightarrow> update \<times> world \<Rightarrow> event list" where
  "process_update g uw =
     (case handle_message g (snd uw) (fst uw) of
        (evs, Returns u) \<Rightarrow> evs
      | (evs, Raises e) \<Rightarrow> evs @ error_handler (fst uw) e)"

text \<open>
  The whole script on an environment and the text updates that arrive: the printed lines
  and the effects. \<open>main()\<close> runs only when the module-level code has not exited.
\<close>

definition bot :: "environment \<Rightarrow> (update \<times> world) list \<Rightarrow> string list \<times> event list" where
  "bot env inbound =
     (case startup env of
        Exit out \<Rightarrow> (out, [])
      | Started out g \<Rightarrow>
          (out, Log INFO [S ''Starting bot polling...''] # concat (map (process_update g) inbound)))"

subsection \<open>Stubs\<close>

text \<open>
  Concrete inputs for the examples below: a world whose calls have fixed outcomes
  (the completion, the Gemini response, the typing indicator, the first and the later
  \<open>reply_text\<close> calls), a candidate with one text part, a completion with one choice, and
  the globals that start-up binds for each provider.
\<close>

definition stub_world :: "chat_completion outcome \<Rightarrow> generate_content_response outcome \<Rightarrow> unit outcome \<Rightarrow> unit outcome \<Rightarrow> unit outcome \<Rightarrow> world" where
  "stub_world oa ge ty r0 r1 =
     \<lparr>chat_completions = (\<lambda>_. oa), generate_content_async = (\<lambda>_ _. ge),
      send_chat_action = (\<lambda>_ _. ty), reply_text = (\<lambda>n _. if n = 0 then r0 else r1)\<rparr>"

definition text_candidate :: "string \<Rightarrow> candidate" where
  "text_candidate s = \<lparr>candidate_content = Some \<lparr>parts = Some [\<lparr>part_text = s\<rparr>]\<rparr>\<rparr>"

definition gemini_globals :: globals where
  "gemini_globals = \<lparr>AI_PROVIDER = ''gemini'', openai_client = None, OPENAI_MODEL = None,
     gemini_model = Some ''gemini-pro'', TELEGRAM_BOT_TOKEN = ''123:abc''\<rparr>"

definition openai_globals :: globals where
  "openai_globals = \<lparr>AI_PROVIDER = ''openai'', openai_client = Some OpenAI,
     OPENAI_MODEL = Some ''gpt-3.5-turbo'', gemini_model = None, TELEGRAM_BOT_TOKEN = ''123:abc''\<rparr>"

definition completion :: "string \<Rightarrow> chat_completion" where
  "completion s = \<lparr>choices = [\<lparr>message = \<lparr>content = Some s\<rparr>\<rparr>]\<rparr>"

definition env_of :: "(string \<times> string) list \<Rightarrow> environment" where
  "env_of vars = \<lparr>environ = map_of vars, installed = (\<lambda>_. True)\<rparr>"

definition text_update :: "string \<Rightarrow> update" where
  "text_update s = \<lparr>update_message = \<lparr>message_text = Some s\<rparr>, effective_chat_id = 42\<rparr>"

section \<open>Properties\<close>

subsection \<open>What get_ai_response returns\<close>

lemma failure_message_nonempty: "failure_message p \<noteq> []"
  by (simp add: failure_message_def)

lemma blocked_message_nonempty: "blocked_message br \<noteq> []"
  by (simp add: blocked_message_def)

lemma get_ai_response_snd:
  "snd (get_ai_response g w um) =
     Returns (case snd (try_body g w um) of
                Returns s \<Rightarrow> s
              | Raises e \<Rightarrow> failure_message (AI_PROVIDER g))"
  by (cases "try_body g w um") (simp add: get_ai_response_def Let_def split: outcome.splits)

lemma try_body_snd:
  "snd (try_body g w um) =
     (if AI_PROVIDER g = ''openai'' then snd (openai_branch g w um)
      else if AI_PROVIDER g = ''gemini'' then snd (gemini_branch g w um)
      else Raises UnboundLocalError)"
  by (simp add: try_body_def split: prod.splits outcome.splits)

lemma gemini_branch_snd:
  "gemini_model g = Some m \<Longrightarrow> generate_content_async w m um = Returns r \<Longrightarrow>
   snd (gemini_branch g w um) = Returns (snd (gemini_text r))"
  by (simp add: gemini_branch_def)

lemma gemini_returns:
  "AI_PROVIDER g = ''gemini'' \<Longrightarrow> gemini_model g = Some m \<Longrightarrow>
   generate_content_async w m um = Returns r \<Longrightarrow>
   snd (get_ai_response g w um) = Returns (snd (gemini_text r))"
  by (simp add: get_ai_response_snd try_body_snd gemini_branch_snd)

lemma gemini_text_nonempty_cases:
  "snd (gemini_text r) = [] \<Longrightarrow>
   \<exists>c cs ct p ps. candidates r = c # cs \<and> candidate_content c = Some ct
      \<and> parts ct = Some (p # ps) \<and> part_text p = []"
  by (auto simp: gemini_text_def COULD_NOT_GENERATE_def EMPTY_RESPONSE_def blocked_message_def
           split: list.splits option.splits)

lemma openai_branch_returns:
  "snd (openai_branch g w um) = Returns t \<Longrightarrow>
   \<exists>m r c cs s. openai_client g = Some AsyncOpenAI \<and> OPENAI_MODEL g = Some m
      \<and> chat_completions w \<lparr>model = m, messages = [(''user'', um)]\<rparr> = Returns r
      \<and> choices r = c # cs \<and> content (message c) = Some s \<and> t = strip s"
  apply (simp add: openai_branch_def Let_def split: option.splits)
  apply (cases "the (openai_client g)")
   apply (auto split: outcome.splits list.splits option.splits)
  done

lemma capitalize_openai: "capitalize ''openai'' = ''Openai''"
  by code_simp

lemma capitalize_gemini: "capitalize ''gemini'' = ''Gemini''"
  by code_simp

lemma gemini_events:
  "AI_PROVIDER g = ''gemini'' \<Longrightarrow> gemini_model g = Some m \<Longrightarrow>
   generate_content_async w m um = Returns r \<Longrightarrow>
   fst (get_ai_response g w um) =
     Log INFO [S (''Sending to AI (gemini): '' @ take 50 um @ ''...'')]
       # GenerateContent m um # fst (gemini_text r)
       @ [Log INFO [S (''AI Response (gemini): '' @ take 50 (snd (gemini_text r)) @ ''...'')]]"
  by (simp add: get_ai_response_def try_body_def gemini_branch_def Let_def)

lemma gemini_text_candidates:
  "candidates r = c # cs \<Longrightarrow>
   gemini_text r =
     (case candidate_content c of
        None \<Rightarrow>
          ([Log WARNING [S ''Gemini response structure unexpected or empty: '', C c]],
           COULD_NOT_GENERATE)
      | Some ct \<Rightarrow>
         (case parts ct of
            None \<Rightarrow>
              ([Log WARNING [S ''Gemini response structure unexpected or empty: '', C c]],
               COULD_NOT_GENERATE)
          | Some [] \<Rightarrow>
              ([Log WARNING [S ''Gemini response structure unexpected or empty: '', C c]],
               COULD_NOT_GENERATE)
          | Some (p # ps) \<Rightarrow> ([], part_text p)))"
  by (simp add: gemini_text_def)

lemma gemini_text_no_candidates:
  "candidates r = [] \<Longrightarrow>
   gemini_text r =
     (case blocked_by r of
        None \<Rightarrow>
          ([Log WARNING [S ''Gemini returned no candidates and no block reason.'']],
           EMPTY_RESPONSE)
      | Some br \<Rightarrow>
          ([Log WARNING [S (''Gemini request blocked: '' @ name br)]], blocked_message br))"
  by (simp add: gemini_text_def)

lemma sync_client_fails:
  "AI_PROVIDER g = ''openai'' \<Longrightarrow> openai_client g = Some OpenAI \<Longrightarrow>
   snd (get_ai_response g w um) = Returns (failure_message ''openai'')"
  by (simp add: get_ai_response_snd try_body_snd openai_branch_def Let_def
           split: option.splits outcome.splits)

lemma async_client_returns_content:
  "AI_PROVIDER g = ''openai'' \<Longrightarrow> openai_client g = Some AsyncOpenAI \<Longrightarrow>
   OPENAI_MODEL g = Some m \<Longrightarrow>
   chat_completions w \<lparr>model = m, messages = [(''user'', um)]\<rparr> = Returns r \<Longrightarrow>
   choices r = c # cs \<Longrightarrow> content (message c) = Some s \<Longrightarrow>
   snd (get_ai_response g w um) = Returns (strip s)"
  by (simp add: get_ai_response_snd try_body_snd openai_branch_def Let_def)

lemma openai_failure_caught:
  "AI_PROVIDER g = ''openai'' \<Longrightarrow> openai_client g = Some cl \<Longrightarrow> OPENAI_MODEL g = Some m \<Longrightarrow>
   chat_completions w \<lparr>model = m, messages = [(''user'', um)]\<rparr> = Raises e \<Longrightarrow>
   get_ai_response g w um =
     ([Log INFO [S (''Sending to AI (openai): '' @ take 50 um @ ''...'')],
       Create \<lparr>model = m, messages = [(''user'', um)]\<rparr>,
       Log ERROR [S ''Error calling Openai API: '', E e]],
      Returns (failure_message ''openai''))"
  by (cases cl)
     (simp_all add: get_ai_response_def try_body_def openai_branch_def Let_def
        capitalize_openai del: capitalize.simps)

lemma startup_openai_client:
  "startup env = Started out g \<Longrightarrow> AI_PROVIDER g = ''openai'' \<Longrightarrow>
   openai_client g = Some OpenAI"
  by (auto simp: startup_def telegram_setup_def Let_def split: if_splits)

lemma openai_never_answers:
  "startup env = Started out g \<Longrightarrow> AI_PROVIDER g = ''openai'' \<Longrightarrow>
   snd (get_ai_response g w um) = Returns (failure_message ''openai'')"
  by (rule sync_client_fails) (simp_all add: startup_openai_client)

lemma lower_openai: "lower ''openai'' = ''openai''"
  by code_simp

lemma lower_gemini: "lower ''gemini'' = ''gemini''"
  by code_simp

lemma startup_openai_example:
  "startup (env_of [(''OPENAI_API_KEY'', ''sk-test''), (''TELEGRAM_BOT_TOKEN'', ''123:abc'')])
   = Started [''Using AI Provider: OpenAI (Model: gpt-3.5-turbo)''] openai_globals"
  by (simp add: startup_def telegram_setup_def missing_def getenv_def Let_def env_of_def
        lower_openai openai_globals_def)

lemma strip_hello: "strip '' Hello '' = ''Hello''"
  by code_simp

subsection \<open>Claim C1: get_ai_response always returns a string\<close>

text \<open>
  C1, as the code has it. For every input text, \<open>get_ai_response\<close> returns a string and
  raises nothing: what the try block returns is returned, and every exception that the
  try block raises (a provider or network failure among them) becomes the apology
  string, which is not empty. The returned string is empty only when it is the
  provider's own text and that text is empty: an OpenAI message content that is empty
  or all white space, or a first Gemini part whose text is empty.
\<close>

theorem get_ai_response_never_raises:
  "snd (get_ai_response g w um) =
     Returns (case snd (try_body g w um) of
                Returns s \<Rightarrow> s
              | Raises e \<Rightarrow> failure_message (AI_PROVIDER g))
   \<and> failure_message (AI_PROVIDER g) \<noteq> []
   \<and> (snd (get_ai_response g w um) = Returns [] \<longrightarrow>
        (AI_PROVIDER g = ''openai'' \<and>
           (\<exists>m r c cs s. openai_client g = Some AsyncOpenAI \<and> OPENAI_MODEL g = Some m
              \<and> chat_completions w \<lparr>model = m, messages = [(''user'', um)]\<rparr> = Returns r
              \<and> choices r = c # cs \<and> content (message c) = Some s \<and> strip s = []))
      \<or> (AI_PROVIDER g = ''gemini'' \<and>
           (\<exists>m r c cs ct p ps. gemini_model g = Some m
              \<and> generate_content_async w m um = Returns r
              \<and> candidates r = c # cs \<and> candidate_content c = Some ct
              \<and> parts ct = Some (p # ps) \<and> part_text p = [])))"
proof (intro conjI impI)
  show "snd (get_ai_response g w um) =
     Returns (case snd (try_body g w um) of
                Returns s \<Rightarrow> s
              | Raises e \<Rightarrow> failure_message (AI_PROVIDER g))"
    by (rule get_ai_response_snd)
  show "failure_message (AI_PROVIDER g) \<noteq> []"
    by (rule failure_message_nonempty)
next
  assume empty: "snd (get_ai_response g w um) = Returns []"
  then have body: "snd (try_body g w um) = Returns []"
    by (simp add: get_ai_response_snd failure_message_nonempty split: outcome.splits)
  consider (openai) "AI_PROVIDER g = ''openai''" | (gemini) "AI_PROVIDER g = ''gemini''"
    using body by (auto simp: try_body_snd split: if_splits)
  then show "(AI_PROVIDER g = ''openai'' \<and>
           (\<exists>m r c cs s. openai_client g = Some AsyncOpenAI \<and> OPENAI_MODEL g = Some m
              \<and> chat_completions w \<lparr>model = m, messages = [(''user'', um)]\<rparr> = Returns r
              \<and> choices r = c # cs \<and> content (message c) = Some s \<and> strip s = []))
      \<or> (AI_PROVIDER g = ''gemini'' \<and>
           (\<exists>m r c cs ct p ps. gemini_model g = Some m
              \<and> generate_content_async w m um = Returns r
              \<and> candidates r = c # cs \<and> candidate_content c = Some ct
              \<and> parts ct = Some (p # ps) \<and> part_text p = []))"
  proof cases
    case openai
    with body have "snd (openai_branch g w um) = Returns []"
      by (simp add: try_body_snd)
    from openai_branch_returns [OF this] openai show ?thesis
      by metis
  next
    case gemini
    with body have gb: "snd (gemini_branch g w um) = Returns []"
      by (simp add: try_body_snd)
    then obtain m r where m: "gemini_model g = Some m"
      and r: "generate_content_async w m um = Returns r"
      and t: "snd (gemini_text r) = []"
      by (auto simp: gemini_branch_def split: option.splits outcome.splits)
    from gemini_text_nonempty_cases [OF t] m r gemini show ?thesis
      by blast
  qed
qed

theorem get_ai_response_never_raises_witness:
  "snd (get_ai_response gemini_globals
          (stub_world (Raises (LibraryError ''unused''))
             (Returns \<lparr>candidates = [text_candidate ''''], prompt_feedback = None\<rparr>)
             (Returns ()) (Returns ()) (Returns ())) ''hi'') = Returns []
   \<and> AI_PROVIDER gemini_globals = ''gemini''
   \<and> (\<exists>m r c cs ct p ps. gemini_model gemini_globals = Some m
          \<and> generate_content_async
               (stub_world (Raises (LibraryError ''unused''))
                  (Returns \<lparr>candidates = [text_candidate ''''], prompt_feedback = None\<rparr>)
                  (Returns ()) (Returns ()) (Returns ())) m ''hi'' = Returns r
          \<and> candidates r = c # cs \<and> candidate_content c = Some ct
          \<and> parts ct = Some (p # ps) \<and> part_text p = [])"
proof -
  let ?w = "stub_world (Raises (LibraryError ''unused''))
             (Returns \<lparr>candidates = [text_candidate ''''], prompt_feedback = None\<rparr>)
             (Returns ()) (Returns ()) (Returns ())"
  have h: "snd (get_ai_response gemini_globals ?w ''hi'') = Returns []"
    by (simp add: get_ai_response_snd try_body_snd gemini_branch_def gemini_text_def
          stub_world_def gemini_globals_def text_candidate_def)
  have p: "AI_PROVIDER gemini_globals = ''gemini''"
    by (simp add: gemini_globals_def)
  from get_ai_response_never_raises [of gemini_globals ?w "''hi''"] h p
  show ?thesis by simp
qed

text \<open>
  C1 as stated fails: the Gemini branch returns the text of the first part as it is, and
  the OpenAI branch returns the stripped content, without a check that it is not empty.
  A Gemini response whose first part has the empty text gives the empty string on the
  non-empty input \<open>hi\<close>.
\<close>

theorem get_ai_response_empty_counterexample:
  "''hi'' \<noteq> []
   \<and> snd (get_ai_response gemini_globals
            (stub_world (Raises (LibraryError ''unused''))
               (Returns \<lparr>candidates = [text_candidate ''''], prompt_feedback = None\<rparr>)
               (Returns ()) (Returns ()) (Returns ())) ''hi'') = Returns []"
  by (simp add: get_ai_response_snd try_body_snd gemini_branch_def gemini_text_def
        stub_world_def gemini_globals_def text_candidate_def)

subsection \<open>Claim C2: a Gemini response with a candidate\<close>

text \<open>
  C2. With the Gemini provider and a response that has at least one candidate: if the
  first candidate has a content with a non-empty list of parts, the text of the first
  part is returned; if the content, the parts attribute or the parts themselves are
  missing, the fixed "couldn't generate" string is returned; so the result is one of
  the two.
\<close>

theorem gemini_candidate_text:
  assumes "AI_PROVIDER g = ''gemini''" and "gemini_model g = Some m"
    and "generate_content_async w m um = Returns r" and "candidates r = c # cs"
  shows "(\<forall>ct p ps. candidate_content c = Some ct \<and> parts ct = Some (p # ps) \<longrightarrow>
            snd (get_ai_response g w um) = Returns (part_text p))
       \<and> (candidate_content c = None
            \<or> (\<exists>ct. candidate_content c = Some ct \<and> (parts ct = None \<or> parts ct = Some [])) \<longrightarrow>
            snd (get_ai_response g w um) = Returns COULD_NOT_GENERATE)
       \<and> (snd (get_ai_response g w um) = Returns COULD_NOT_GENERATE
            \<or> (\<exists>ct p ps. candidate_content c = Some ct \<and> parts ct = Some (p # ps)
                  \<and> snd (get_ai_response g w um) = Returns (part_text p)))"
proof -
  have res: "snd (get_ai_response g w um) = Returns (snd (gemini_text r))"
    using assms(1-3) by (rule gemini_returns)
  show ?thesis
    unfolding res gemini_text_candidates [OF assms(4)]
    by (auto split: option.splits list.splits)
qed

theorem gemini_candidate_text_witness:
  "snd (get_ai_response gemini_globals
          (stub_world (Raises (LibraryError ''unused''))
             (Returns \<lparr>candidates = [text_candidate ''Hello''], prompt_feedback = None\<rparr>)
             (Returns ()) (Returns ()) (Returns ())) ''hi'') = Returns ''Hello''
   \<and> snd (get_ai_response gemini_globals
          (stub_world (Raises (LibraryError ''unused''))
             (Returns \<lparr>candidates = [\<lparr>candidate_content = None\<rparr>], prompt_feedback = None\<rparr>)
             (Returns ()) (Returns ()) (Returns ())) ''hi'') = Returns COULD_NOT_GENERATE"
proof -
  let ?w1 = "stub_world (Raises (LibraryError ''unused''))
             (Returns \<lparr>candidates = [text_candidate ''Hello''], prompt_feedback = None\<rparr>)
             (Returns ()) (Returns ()) (Returns ())"
  let ?w2 = "stub_world (Raises (LibraryError ''unused''))
             (Returns \<lparr>candidates = [\<lparr>candidate_content = None\<rparr>], prompt_feedback = None\<rparr>)
             (Returns ()) (Returns ()) (Returns ())"
  have g: "AI_PROVIDER gemini_globals = ''gemini''" "gemini_model gemini_globals = Some ''gemini-pro''"
    by (simp_all add: gemini_globals_def)
  have r1: "generate_content_async ?w1 ''gemini-pro'' ''hi''
            = Returns \<lparr>candidates = [text_candidate ''Hello''], prompt_feedback = None\<rparr>"
    by (simp add: stub_world_def)
  have r2: "generate_content_async ?w2 ''gemini-pro'' ''hi''
            = Returns \<lparr>candidates = [\<lparr>candidate_content = None\<rparr>], prompt_feedback = None\<rparr>"
    by (simp add: stub_world_def)
  have c1: "candidates \<lparr>candidates = [text_candidate ''Hello''], prompt_feedback = None\<rparr>
            = text_candidate ''Hello'' # []"
    by simp
  have c2: "candidates \<lparr>candidates = [\<lparr>candidate_content = None\<rparr>], prompt_feedback = None\<rparr>
            = \<lparr>candidate_content = None\<rparr> # []"
    by simp
  from gemini_candidate_text [OF g r1 c1] gemini_candidate_text [OF g r2 c2]
  show ?thesis by (simp add: text_candidate_def)
qed

subsection \<open>Claim C3: the OpenAI branch\<close>

text \<open>
  C3 on the code. The request is sent with the model name and the single user message,
  and a failure of the request is caught and answered with the apology
  (\<open>openai_failure_caught\<close>). But start-up binds \<open>openai_client\<close> to the synchronous
  \<open>openai.OpenAI\<close> (\<open>startup_openai_client\<close>), whose \<open>create\<close> returns the completion
  itself, and line 92 awaits that value: the TypeError is caught by the same handler,
  so a successful completion is answered with the apology too (\<open>sync_client_fails\<close>,
  \<open>openai_never_answers\<close>).
  The comment of line 92 says to remove the \<open>await\<close> unless the client is the
  asynchronous one; with that client the content comes back stripped
  (\<open>async_client_returns_content\<close>). Here the completion \<open>" Hello "\<close> arrives and the
  user gets the apology.
\<close>

theorem openai_success_is_reported_as_failure:
  "get_ai_response openai_globals
       (stub_world (Returns (completion '' Hello '')) (Raises (LibraryError ''unused''))
          (Returns ()) (Returns ()) (Returns ())) ''hi''
     = ([Log INFO [S ''Sending to AI (openai): hi...''],
         Create \<lparr>model = ''gpt-3.5-turbo'', messages = [(''user'', ''hi'')]\<rparr>,
         Log ERROR [S ''Error calling Openai API: '', E TypeError]],
        Returns ''Sorry, I encountered an error trying to reach the AI (Openai). Please try again later.'')"
  by (simp add: get_ai_response_def try_body_def openai_branch_def Let_def openai_globals_def
        stub_world_def completion_def capitalize_openai failure_message_def
        del: capitalize.simps)

subsection \<open>Claim C4: a blocked Gemini response\<close>

text \<open>
  C4, as the code has it. With the Gemini provider, a response with no candidates and
  a block reason gives the string that names the block reason.
\<close>

theorem gemini_blocked_names_reason:
  assumes "AI_PROVIDER g = ''gemini''" and "gemini_model g = Some m"
    and "generate_content_async w m um = Returns r"
    and "candidates r = []" and "blocked_by r = Some br"
  shows "snd (get_ai_response g w um) = Returns (blocked_message br)
       \<and> sublist (name br) (blocked_message br)"
proof -
  have "snd (get_ai_response g w um) = Returns (snd (gemini_text r))"
    using assms(1-3) by (rule gemini_returns)
  moreover have "snd (gemini_text r) = blocked_message br"
    by (simp add: gemini_text_no_candidates [OF assms(4)] assms(5))
  moreover have "sublist (name br) (blocked_message br)"
    unfolding blocked_message_def by (rule sublist_appendI)
  ultimately show ?thesis by simp
qed

theorem gemini_blocked_names_reason_witness:
  "snd (get_ai_response gemini_globals
          (stub_world (Raises (LibraryError ''unused''))
             (Returns \<lparr>candidates = [],
                       prompt_feedback = Some \<lparr>block_reason = Some (BlockReason ''SAFETY'')\<rparr>\<rparr>)
             (Returns ()) (Returns ()) (Returns ())) ''hi'')
     = Returns ''My response was blocked due to: SAFETY. Please rephrase your request.''
   \<and> sublist ''SAFETY'' ''My response was blocked due to: SAFETY. Please rephrase your request.''"
proof -
  let ?r = "\<lparr>candidates = [],
             prompt_feedback = Some \<lparr>block_reason = Some (BlockReason ''SAFETY'')\<rparr>\<rparr>"
  let ?w = "stub_world (Raises (LibraryError ''unused'')) (Returns ?r)
              (Returns ()) (Returns ()) (Returns ())"
  have g: "AI_PROVIDER gemini_globals = ''gemini''" "gemini_model gemini_globals = Some ''gemini-pro''"
    by (simp_all add: gemini_globals_def)
  have r: "generate_content_async ?w ''gemini-pro'' ''hi'' = Returns ?r"
    by (simp add: stub_world_def)
  have c: "candidates ?r = []" by simp
  have b: "blocked_by ?r = Some (BlockReason ''SAFETY'')" by (simp add: blocked_by_def)
  from gemini_blocked_names_reason [OF g r c b]
  show ?thesis by (simp add: blocked_message_def)
qed

text \<open>
  C4 as stated fails: the block reason is looked at only when there are no candidates.
  A response with a candidate and the block reason SAFETY gives the candidate's text,
  which does not contain the name of the block reason.
\<close>

theorem gemini_blocked_with_candidates_counterexample:
  "blocked_by \<lparr>candidates = [text_candidate ''Hello''],
               prompt_feedback = Some \<lparr>block_reason = Some (BlockReason ''SAFETY'')\<rparr>\<rparr>
     = Some (BlockReason ''SAFETY'')
   \<and> snd (get_ai_response gemini_globals
          (stub_world (Raises (LibraryError ''unused''))
             (Returns \<lparr>candidates = [text_candidate ''Hello''],
                       prompt_feedback = Some \<lparr>block_reason = Some (BlockReason ''SAFETY'')\<rparr>\<rparr>)
             (Returns ()) (Returns ()) (Returns ())) ''hi'') = Returns ''Hello''
   \<and> \<not> sublist (name (BlockReason ''SAFETY'')) ''Hello''"
proof (intro conjI)
  show "\<not> sublist (name (BlockReason ''SAFETY'')) ''Hello''"
    by code_simp
qed (simp_all add: blocked_by_def get_ai_response_snd try_body_snd gemini_branch_def
       gemini_text_def stub_world_def gemini_globals_def text_candidate_def)

subsection \<open>Claim C5: an empty Gemini response\<close>

text \<open>
  C5. With the Gemini provider, a response with no candidates and no block reason (no
  prompt feedback, or a prompt feedback without a block reason) gives exactly the fixed
  "empty response" string.
\<close>

theorem gemini_empty_response:
  assumes "AI_PROVIDER g = ''gemini''" and "gemini_model g = Some m"
    and "generate_content_async w m um = Returns r"
    and "candidates r = []" and "blocked_by r = None"
  shows "snd (get_ai_response g w um) = Returns EMPTY_RESPONSE"
proof -
  have "snd (get_ai_response g w um) = Returns (snd (gemini_text r))"
    using assms(1-3) by (rule gemini_returns)
  then show ?thesis
    by (simp add: gemini_text_no_candidates [OF assms(4)] assms(5))
qed

theorem gemini_empty_response_witness:
  "snd (get_ai_response gemini_globals
          (stub_world (Raises (LibraryError ''unused''))
             (Returns \<lparr>candidates = [], prompt_feedback = None\<rparr>)
             (Returns ()) (Returns ()) (Returns ())) ''hi'')
     = Returns ''Sorry, I received an empty response from the AI.''
   \<and> snd (get_ai_response gemini_globals
          (stub_world (Raises (LibraryError ''unused''))
             (Returns \<lparr>candidates = [], prompt_feedback = Some \<lparr>block_reason = None\<rparr>\<rparr>)
             (Returns ()) (Returns ()) (Returns ())) ''hi'')
     = Returns ''Sorry, I received an empty response from the AI.''"
proof -
  let ?r1 = "\<lparr>candidates = [], prompt_feedback = None\<rparr>"
  let ?r2 = "\<lparr>candidates = [], prompt_feedback = Some \<lparr>block_reason = None\<rparr>\<rparr>"
  let ?w1 = "stub_world (Raises (LibraryError ''unused'')) (Returns ?r1)
              (Returns ()) (Returns ()) (Returns ())"
  let ?w2 = "stub_world (Raises (LibraryError ''unused'')) (Returns ?r2)
              (Returns ()) (Returns ()) (Returns ())"
  have g: "AI_PROVIDER gemini_globals = ''gemini''" "gemini_model gemini_globals = Some ''gemini-pro''"
    by (simp_all add: gemini_globals_def)
  have r1: "generate_content_async ?w1 ''gemini-pro'' ''hi'' = Returns ?r1"
    by (simp add: stub_world_def)
  have r2: "generate_content_async ?w2 ''gemini-pro'' ''hi'' = Returns ?r2"
    by (simp add: stub_world_def)
  have c: "candidates ?r1 = []" "candidates ?r2 = []" by simp_all
  have b: "blocked_by ?r1 = None" "blocked_by ?r2 = None" by (simp_all add: blocked_by_def)
  from gemini_empty_response [OF g r1 c(1) b(1)] gemini_empty_response [OF g r2 c(2) b(2)]
  show ?thesis by (simp add: EMPTY_RESPONSE_def)
qed

subsection \<open>Claim C9: candidates before the block reason\<close>

text \<open>
  C9, as the code has it. With the Gemini provider, a response that has a candidate and
  a block reason is answered from the candidates branch: the result is the text of the
  first part or the fixed "couldn't generate" string, the warning of the block-reason
  branch is not logged, and the result is what it would be without the prompt feedback.
  The result contains the name of the block reason only where that part text or that
  fixed string itself contains it.
\<close>

theorem candidates_checked_before_block_reason:
  assumes "AI_PROVIDER g = ''gemini''" and "gemini_model g = Some m"
    and "generate_content_async w m um = Returns r"
    and "candidates r = c # cs" and "blocked_by r = Some br"
  shows "(snd (get_ai_response g w um) = Returns COULD_NOT_GENERATE
            \<or> (\<exists>ct p ps. candidate_content c = Some ct \<and> parts ct = Some (p # ps)
                  \<and> snd (get_ai_response g w um) = Returns (part_text p)))
       \<and> Log WARNING [S (''Gemini request blocked: '' @ name br)]
            \<notin> set (fst (get_ai_response g w um))
       \<and> gemini_text (r\<lparr>prompt_feedback := None\<rparr>) = gemini_text r
       \<and> (\<forall>s. snd (get_ai_response g w um) = Returns s \<and> sublist (name br) s \<longrightarrow>
              (s = COULD_NOT_GENERATE \<and> sublist (name br) COULD_NOT_GENERATE)
            \<or> (\<exists>ct p ps. candidate_content c = Some ct \<and> parts ct = Some (p # ps)
                  \<and> s = part_text p \<and> sublist (name br) (part_text p)))"
proof -
  have res: "snd (get_ai_response g w um) = Returns (snd (gemini_text r))"
    using assms(1-3) by (rule gemini_returns)
  have evs: "fst (get_ai_response g w um) =
     Log INFO [S (''Sending to AI (gemini): '' @ take 50 um @ ''...'')]
       # GenerateContent m um # fst (gemini_text r)
       @ [Log INFO [S (''AI Response (gemini): '' @ take 50 (snd (gemini_text r)) @ ''...'')]]"
    using assms(1-3) by (rule gemini_events)
  have a: "snd (get_ai_response g w um) = Returns COULD_NOT_GENERATE
            \<or> (\<exists>ct p ps. candidate_content c = Some ct \<and> parts ct = Some (p # ps)
                  \<and> snd (get_ai_response g w um) = Returns (part_text p))"
    unfolding res gemini_text_candidates [OF assms(4)]
    by (auto split: option.splits list.splits)
  have b: "Log WARNING [S (''Gemini request blocked: '' @ name br)]
            \<notin> set (fst (get_ai_response g w um))"
    unfolding evs gemini_text_candidates [OF assms(4)]
    by (auto split: option.splits list.splits)
  have c: "gemini_text (r\<lparr>prompt_feedback := None\<rparr>) = gemini_text r"
    using assms(4) by (simp add: gemini_text_def)
  have d: "\<forall>s. snd (get_ai_response g w um) = Returns s \<and> sublist (name br) s \<longrightarrow>
              (s = COULD_NOT_GENERATE \<and> sublist (name br) COULD_NOT_GENERATE)
            \<or> (\<exists>ct p ps. candidate_content c = Some ct \<and> parts ct = Some (p # ps)
                  \<and> s = part_text p \<and> sublist (name br) (part_text p))"
    using a by auto
  from a b c d show ?thesis by blast
qed

theorem candidates_checked_before_block_reason_witness:
  "get_ai_response gemini_globals
          (stub_world (Raises (LibraryError ''unused''))
             (Returns \<lparr>candidates = [text_candidate ''Hello''],
                       prompt_feedback = Some \<lparr>block_reason = Some (BlockReason ''OTHER'')\<rparr>\<rparr>)
             (Returns ()) (Returns ()) (Returns ())) ''hi''
     = ([Log INFO [S ''Sending to AI (gemini): hi...''],
         GenerateContent ''gemini-pro'' ''hi'',
         Log INFO [S ''AI Response (gemini): Hello...'']],
        Returns ''Hello'')
   \<and> Log WARNING [S ''Gemini request blocked: OTHER'']
        \<notin> set (fst (get_ai_response gemini_globals
          (stub_world (Raises (LibraryError ''unused''))
             (Returns \<lparr>candidates = [text_candidate ''Hello''],
                       prompt_feedback = Some \<lparr>block_reason = Some (BlockReason ''OTHER'')\<rparr>\<rparr>)
             (Returns ()) (Returns ()) (Returns ())) ''hi''))
   \<and> snd (get_ai_response gemini_globals
          (stub_world (Raises (LibraryError ''unused''))
             (Returns \<lparr>candidates = [text_candidate ''OTHER reasons''],
                       prompt_feedback = Some \<lparr>block_reason = Some (BlockReason ''OTHER'')\<rparr>\<rparr>)
             (Returns ()) (Returns ()) (Returns ())) ''hi'') = Returns ''OTHER reasons''
   \<and> sublist ''OTHER'' (part_text \<lparr>part_text = ''OTHER reasons''\<rparr>)"
proof -
  let ?r = "\<lparr>candidates = [text_candidate ''Hello''],
             prompt_feedback = Some \<lparr>block_reason = Some (BlockReason ''OTHER'')\<rparr>\<rparr>"
  let ?w = "stub_world (Raises (LibraryError ''unused'')) (Returns ?r)
              (Returns ()) (Returns ()) (Returns ())"
  let ?r2 = "\<lparr>candidates = [text_candidate ''OTHER reasons''],
             prompt_feedback = Some \<lparr>block_reason = Some (BlockReason ''OTHER'')\<rparr>\<rparr>"
  let ?w2 = "stub_world (Raises (LibraryError ''unused'')) (Returns ?r2)
              (Returns ()) (Returns ()) (Returns ())"
  have g: "AI_PROVIDER gemini_globals = ''gemini''" "gemini_model gemini_globals = Some ''gemini-pro''"
    by (simp_all add: gemini_globals_def)
  have r: "generate_content_async ?w ''gemini-pro'' ''hi'' = Returns ?r"
    by (simp add: stub_world_def)
  have r2: "generate_content_async ?w2 ''gemini-pro'' ''hi'' = Returns ?r2"
    by (simp add: stub_world_def)
  have c: "candidates ?r = text_candidate ''Hello'' # []" by simp
  have c2: "candidates ?r2 = text_candidate ''OTHER reasons'' # []" by simp
  have b: "blocked_by ?r = Some (BlockReason ''OTHER'')" by (simp add: blocked_by_def)
  have b2: "blocked_by ?r2 = Some (BlockReason ''OTHER'')" by (simp add: blocked_by_def)
  have v: "get_ai_response gemini_globals ?w ''hi''
     = ([Log INFO [S ''Sending to AI (gemini): hi...''],
         GenerateContent ''gemini-pro'' ''hi'',
         Log INFO [S ''AI Response (gemini): Hello...'']],
        Returns ''Hello'')"
    by (simp add: get_ai_response_def try_body_def gemini_branch_def gemini_text_def Let_def
          stub_world_def gemini_globals_def text_candidate_def)
  have v2: "snd (get_ai_response gemini_globals ?w2 ''hi'') = Returns ''OTHER reasons''"
    by (simp add: get_ai_response_snd try_body_snd gemini_branch_def gemini_text_def
          stub_world_def gemini_globals_def text_candidate_def)
  have s2: "sublist (name (BlockReason ''OTHER'')) ''OTHER reasons''"
    by code_simp
  have n2: "''OTHER reasons'' \<noteq> COULD_NOT_GENERATE"
    by (simp add: COULD_NOT_GENERATE_def)
  have t2: "candidate_content (text_candidate ''OTHER reasons'')
              = Some \<lparr>parts = Some [\<lparr>part_text = ''OTHER reasons''\<rparr>]\<rparr>"
    by (simp add: text_candidate_def)
  from candidates_checked_before_block_reason [OF g r2 c2 b2] v2 s2 n2 t2
  have "sublist ''OTHER'' (part_text \<lparr>part_text = ''OTHER reasons''\<rparr>)"
    by auto
  with candidates_checked_before_block_reason [OF g r c b] v v2
  show ?thesis by simp
qed

text \<open>
  C9 as stated fails in its last part: the text of the first part is returned as it is
  (line 114), so when the provider's own text contains the name of the block reason, the
  returned string names it. A candidate with the text SAFETY and the block reason SAFETY
  gives the string SAFETY.
\<close>

theorem candidates_branch_names_block_reason_counterexample:
  "candidates \<lparr>candidates = [text_candidate ''SAFETY''],
               prompt_feedback = Some \<lparr>block_reason = Some (BlockReason ''SAFETY'')\<rparr>\<rparr>
     = [text_candidate ''SAFETY'']
   \<and> blocked_by \<lparr>candidates = [text_candidate ''SAFETY''],
               prompt_feedback = Some \<lparr>block_reason = Some (BlockReason ''SAFETY'')\<rparr>\<rparr>
     = Some (BlockReason ''SAFETY'')
   \<and> snd (get_ai_response gemini_globals
          (stub_world (Raises (LibraryError ''unused''))
             (Returns \<lparr>candidates = [text_candidate ''SAFETY''],
                       prompt_feedback = Some \<lparr>block_reason = Some (BlockReason ''SAFETY'')\<rparr>\<rparr>)
             (Returns ()) (Returns ()) (Returns ())) ''hi'') = Returns ''SAFETY''
   \<and> sublist (name (BlockReason ''SAFETY'')) ''SAFETY''"
proof (intro conjI)
  show "sublist (name (BlockReason ''SAFETY'')) ''SAFETY''"
    by simp
qed (simp_all add: blocked_by_def get_ai_response_snd try_body_snd gemini_branch_def
       gemini_text_def stub_world_def gemini_globals_def text_candidate_def)

subsection \<open>What handle_message does\<close>

lemma get_ai_response_no_reply: "filter attempted (fst (get_ai_response g w um)) = []"
proof -
  have ob: "filter attempted (fst (openai_branch g w um)) = []"
    by (simp add: openai_branch_def Let_def split: option.splits outcome.splits list.splits)
  have gt: "filter attempted (fst (gemini_text r)) = []" for r
    by (simp add: gemini_text_def split: option.splits list.splits)
  have gb: "filter attempted (fst (gemini_branch g w um)) = []"
    by (simp add: gemini_branch_def gt split: option.splits outcome.splits)
  have tb: "filter attempted (fst (try_body g w um)) = []"
  proof -
    let ?b = "if AI_PROVIDER g = ''openai'' then openai_branch g w um
              else if AI_PROVIDER g = ''gemini'' then gemini_branch g w um
              else ([], Raises UnboundLocalError)"
    have "filter attempted (fst ?b) = []"
      using ob gb by simp
    then show ?thesis
      by (cases ?b) (simp add: try_body_def split: outcome.splits)
  qed
  show ?thesis
    using tb by (cases "try_body g w um") (simp add: get_ai_response_def Let_def split: outcome.splits)
qed

lemma get_ai_response_no_delivery: "filter delivered (fst (get_ai_response g w um)) = []"
proof -
  have "delivered ev \<Longrightarrow> attempted ev" for ev
    by (cases ev rule: delivered.cases) simp_all
  then have "set (filter delivered evs) \<subseteq> set (filter attempted evs)" for evs
    by auto
  from this [of "fst (get_ai_response g w um)"] show ?thesis
    by (simp add: get_ai_response_no_reply)
qed

lemma get_ai_response_result:
  "\<exists>evs s. get_ai_response g w um = (evs, Returns s)"
  by (cases "try_body g w um") (simp add: get_ai_response_def Let_def split: outcome.splits)

lemma handle_message_text:
  assumes "message_text (update_message upd) = Some um" and "um \<noteq> []"
    and "send_chat_action w (effective_chat_id upd) TYPING = Returns u"
    and "get_ai_response g w um = (evs, Returns ai_response)"
  shows "handle_message g w upd =
     (SendChatAction (effective_chat_id upd) TYPING (Returns u) # evs
        @ fst (send_back w ai_response),
      snd (send_back w ai_response))"
  using assms by (cases um) (simp_all add: handle_message_def Let_def)

subsection \<open>Claim C10: a message without text\<close>

text \<open>
  C10. For an update whose message text is absent or empty, \<open>handle_message\<close> returns at
  once with no effect at all: no typing indicator, no call to a provider, no reply.
\<close>

theorem handle_message_ignores_empty:
  "message_text (update_message upd) = None \<or> message_text (update_message upd) = Some []
   \<Longrightarrow> handle_message g w upd = ([], Returns ())"
  by (auto simp: handle_message_def)

theorem handle_message_ignores_empty_witness:
  "handle_message gemini_globals
     (stub_world (Raises (LibraryError ''unused''))
        (Returns \<lparr>candidates = [text_candidate ''Hello''], prompt_feedback = None\<rparr>)
        (Returns ()) (Returns ()) (Returns ()))
     \<lparr>update_message = \<lparr>message_text = None\<rparr>, effective_chat_id = 42\<rparr> = ([], Returns ())
   \<and> handle_message gemini_globals
     (stub_world (Raises (LibraryError ''unused''))
        (Returns \<lparr>candidates = [text_candidate ''Hello''], prompt_feedback = None\<rparr>)
        (Returns ()) (Returns ()) (Returns ()))
     (text_update []) = ([], Returns ())"
proof -
  have a: "message_text (update_message \<lparr>update_message = \<lparr>message_text = None\<rparr>,
             effective_chat_id = 42\<rparr>) = None
           \<or> message_text (update_message \<lparr>update_message = \<lparr>message_text = None\<rparr>,
             effective_chat_id = 42\<rparr>) = Some []"
    by simp
  have b: "message_text (update_message (text_update [])) = None
           \<or> message_text (update_message (text_update [])) = Some []"
    by (simp add: text_update_def)
  from handle_message_ignores_empty [OF a] handle_message_ignores_empty [OF b]
  show ?thesis by simp
qed

subsection \<open>Claim C7: one reply for each message\<close>

text \<open>
  C7, as the code has it. For an update with a non-empty text, when the typing indicator
  is sent and at least one of the two sends succeeds (the AI reply, or after its failure
  the error reply), exactly one reply reaches the conversation: the AI reply if its send
  succeeds, the error reply otherwise.
\<close>

theorem handle_message_one_reply:
  assumes "message_text (update_message upd) = Some um" and "um \<noteq> []"
    and "send_chat_action w (effective_chat_id upd) TYPING = Returns ()"
    and "snd (get_ai_response g w um) = Returns ai_response"
    and "reply_text w 0 ai_response = Returns () \<or> reply_text w 1 SEND_FAILED = Returns ()"
  shows "filter delivered (fst (handle_message g w upd)) =
           [ReplyText (if reply_text w 0 ai_response = Returns () then ai_response
                       else SEND_FAILED) (Returns ())]"
proof -
  obtain evs where ai: "get_ai_response g w um = (evs, Returns ai_response)"
    using assms(4) by (cases "get_ai_response g w um") simp
  have evs: "filter delivered evs = []"
    using get_ai_response_no_delivery [of g w um] by (simp add: ai)
  have hm: "fst (handle_message g w upd) =
     SendChatAction (effective_chat_id upd) TYPING (Returns ()) # evs
        @ fst (send_back w ai_response)"
    by (simp add: handle_message_text [OF assms(1-3) ai])
  show ?thesis
    using assms(5) by (auto simp: hm evs send_back_def split: outcome.splits)
qed

theorem handle_message_one_reply_witness:
  "filter delivered (fst (handle_message gemini_globals
     (stub_world (Raises (LibraryError ''unused''))
        (Returns \<lparr>candidates = [text_candidate ''Hello''], prompt_feedback = None\<rparr>)
        (Returns ()) (Returns ()) (Returns ()))
     (text_update ''hi''))) = [ReplyText ''Hello'' (Returns ())]
   \<and> filter delivered (fst (handle_message gemini_globals
     (stub_world (Raises (LibraryError ''unused''))
        (Returns \<lparr>candidates = [text_candidate ''Hello''], prompt_feedback = None\<rparr>)
        (Returns ()) (Raises (LibraryError ''Timed out'')) (Returns ()))
     (text_update ''hi''))) = [ReplyText SEND_FAILED (Returns ())]"
proof -
  let ?r = "\<lparr>candidates = [text_candidate ''Hello''], prompt_feedback = None\<rparr>"
  let ?w1 = "stub_world (Raises (LibraryError ''unused'')) (Returns ?r)
               (Returns ()) (Returns ()) (Returns ())"
  let ?w2 = "stub_world (Raises (LibraryError ''unused'')) (Returns ?r)
               (Returns ()) (Raises (LibraryError ''Timed out'')) (Returns ())"
  have t: "message_text (update_message (text_update ''hi'')) = Some ''hi''" "''hi'' \<noteq> []"
    by (simp_all add: text_update_def)
  have a1: "send_chat_action ?w1 (effective_chat_id (text_update ''hi'')) TYPING = Returns ()"
    and a2: "send_chat_action ?w2 (effective_chat_id (text_update ''hi'')) TYPING = Returns ()"
    by (simp_all add: stub_world_def)
  have g1: "snd (get_ai_response gemini_globals ?w1 ''hi'') = Returns ''Hello''"
    and g2: "snd (get_ai_response gemini_globals ?w2 ''hi'') = Returns ''Hello''"
    by (simp_all add: get_ai_response_snd try_body_snd gemini_branch_def gemini_text_def
          stub_world_def gemini_globals_def text_candidate_def)
  have r1: "reply_text ?w1 0 ''Hello'' = Returns () \<or> reply_text ?w1 1 SEND_FAILED = Returns ()"
    and r2: "reply_text ?w2 0 ''Hello'' = Returns () \<or> reply_text ?w2 1 SEND_FAILED = Returns ()"
    by (simp_all add: stub_world_def)
  have n1: "reply_text ?w1 0 ''Hello'' = Returns ()"
    and n2: "reply_text ?w2 0 ''Hello'' \<noteq> Returns ()"
    by (simp_all add: stub_world_def)
  from handle_message_one_reply [OF t a1 g1 r1] handle_message_one_reply [OF t a2 g2 r2] n1 n2
  show ?thesis by simp
qed

text \<open>
  C7 as stated fails: the typing indicator of line 147 is sent outside any try block, so
  when it fails the handler ends there and no reply is attempted; and when both the
  reply and the error reply fail, none is delivered.
\<close>

theorem handle_message_no_reply_counterexample:
  "message_text (update_message (text_update ''hi'')) = Some ''hi''
   \<and> handle_message gemini_globals
       (stub_world (Raises (LibraryError ''unused''))
          (Returns \<lparr>candidates = [text_candidate ''Hello''], prompt_feedback = None\<rparr>)
          (Raises (LibraryError ''Timed out'')) (Returns ()) (Returns ()))
       (text_update ''hi'')
     = ([SendChatAction 42 ''typing'' (Raises (LibraryError ''Timed out''))],
        Raises (LibraryError ''Timed out''))
   \<and> filter delivered (fst (handle_message gemini_globals
       (stub_world (Raises (LibraryError ''unused''))
          (Returns \<lparr>candidates = [text_candidate ''Hello''], prompt_feedback = None\<rparr>)
          (Returns ()) (Raises (LibraryError ''Timed out'')) (Raises (LibraryError ''Timed out'')))
       (text_update ''hi''))) = []"
  by (simp add: handle_message_def get_ai_response_def try_body_def gemini_branch_def
        gemini_text_def send_back_def Let_def stub_world_def gemini_globals_def
        text_candidate_def text_update_def TYPING_def)

subsection \<open>Claim C8: a reply that cannot be sent\<close>

text \<open>
  C8, as the code has it. When the send of the AI reply fails, the failure is caught and
  logged and the error reply is attempted exactly once; these are the only two
  \<open>reply_text\<close> calls. The handler then ends as that second send ends: it returns if
  the error reply is sent, and raises what the second send raises.
\<close>

theorem handle_message_send_failure:
  assumes "message_text (update_message upd) = Some um" and "um \<noteq> []"
    and "send_chat_action w (effective_chat_id upd) TYPING = Returns ()"
    and "snd (get_ai_response g w um) = Returns ai_response"
    and "reply_text w 0 ai_response = Raises e"
  shows "fst (handle_message g w upd) =
           SendChatAction (effective_chat_id upd) TYPING (Returns ())
             # fst (get_ai_response g w um)
             @ [ReplyText ai_response (Raises e),
                Log ERROR [S ''Error sending message back to Telegram: '', E e],
                ReplyText SEND_FAILED (reply_text w 1 SEND_FAILED)]
       \<and> filter attempted (fst (handle_message g w upd)) =
           [ReplyText ai_response (Raises e),
            ReplyText SEND_FAILED (reply_text w 1 SEND_FAILED)]
       \<and> snd (handle_message g w upd) = reply_text w 1 SEND_FAILED"
proof -
  obtain evs where ai: "get_ai_response g w um = (evs, Returns ai_response)"
    using assms(4) by (cases "get_ai_response g w um") simp
  have evs: "filter attempted evs = []"
    using get_ai_response_no_reply [of g w um] by (simp add: ai)
  have sb: "send_back w ai_response =
     ([ReplyText ai_response (Raises e),
       Log ERROR [S ''Error sending message back to Telegram: '', E e],
       ReplyText SEND_FAILED (reply_text w 1 SEND_FAILED)],
      reply_text w 1 SEND_FAILED)"
    by (simp add: send_back_def assms(5))
  show ?thesis
    by (simp add: handle_message_text [OF assms(1-3) ai] sb ai evs)
qed

theorem handle_message_send_failure_witness:
  "handle_message gemini_globals
     (stub_world (Raises (LibraryError ''unused''))
        (Returns \<lparr>candidates = [text_candidate ''Hello''], prompt_feedback = None\<rparr>)
        (Returns ()) (Raises (LibraryError ''Timed out'')) (Returns ()))
     (text_update ''hi'')
   = ([SendChatAction 42 ''typing'' (Returns ()),
       Log INFO [S ''Sending to AI (gemini): hi...''],
       GenerateContent ''gemini-pro'' ''hi'',
       Log INFO [S ''AI Response (gemini): Hello...''],
       ReplyText ''Hello'' (Raises (LibraryError ''Timed out'')),
       Log ERROR [S ''Error sending message back to Telegram: '', E (LibraryError ''Timed out'')],
       ReplyText SEND_FAILED (Returns ())],
      Returns ())"
proof -
  let ?r = "\<lparr>candidates = [text_candidate ''Hello''], prompt_feedback = None\<rparr>"
  let ?w = "stub_world (Raises (LibraryError ''unused'')) (Returns ?r)
               (Returns ()) (Raises (LibraryError ''Timed out'')) (Returns ())"
  have t: "message_text (update_message (text_update ''hi'')) = Some ''hi''" "''hi'' \<noteq> []"
    by (simp_all add: text_update_def)
  have a: "send_chat_action ?w (effective_chat_id (text_update ''hi'')) TYPING = Returns ()"
    by (simp add: stub_world_def)
  have g: "get_ai_response gemini_globals ?w ''hi''
     = ([Log INFO [S ''Sending to AI (gemini): hi...''],
         GenerateContent ''gemini-pro'' ''hi'',
         Log INFO [S ''AI Response (gemini): Hello...'']],
        Returns ''Hello'')"
    by (simp add: get_ai_response_def try_body_def gemini_branch_def gemini_text_def Let_def
          stub_world_def gemini_globals_def text_candidate_def)
  have g': "snd (get_ai_response gemini_globals ?w ''hi'') = Returns ''Hello''"
    by (simp add: g)
  have r: "reply_text ?w 0 ''Hello'' = Raises (LibraryError ''Timed out'')"
    and r': "reply_text ?w 1 SEND_FAILED = Returns ()"
    by (simp_all add: stub_world_def)
  have e: "effective_chat_id (text_update ''hi'') = 42" "TYPING = ''typing''"
    by (simp_all add: text_update_def TYPING_def)
  from handle_message_send_failure [OF t a g' r] g r' e
  show ?thesis by (simp add: prod_eq_iff)
qed

text \<open>
  C8 as stated fails: the second \<open>reply_text\<close> of line 158 is inside the except handler
  and not in a try block of its own. When both sends time out, the exception leaves
  \<open>handle_message\<close>.
\<close>

theorem handle_message_fallback_fails_counterexample:
  "reply_text (stub_world (Raises (LibraryError ''unused''))
        (Returns \<lparr>candidates = [text_candidate ''Hello''], prompt_feedback = None\<rparr>)
        (Returns ()) (Raises (LibraryError ''Timed out'')) (Raises (LibraryError ''Timed out'')))
      0 ''Hello'' = Raises (LibraryError ''Timed out'')
   \<and> snd (handle_message gemini_globals
       (stub_world (Raises (LibraryError ''unused''))
          (Returns \<lparr>candidates = [text_candidate ''Hello''], prompt_feedback = None\<rparr>)
          (Returns ()) (Raises (LibraryError ''Timed out'')) (Raises (LibraryError ''Timed out'')))
       (text_update ''hi'')) = Raises (LibraryError ''Timed out'')"
  by (simp add: handle_message_def get_ai_response_def try_body_def gemini_branch_def
        gemini_text_def send_back_def Let_def stub_world_def gemini_globals_def
        text_candidate_def text_update_def TYPING_def)

subsection \<open>Claim C6: start-up without a usable configuration\<close>

text \<open>
  C6. When the provider is OpenAI and OPENAI_API_KEY is unset or empty, or the provider
  is Gemini and GOOGLE_API_KEY is unset or empty, or the provider name is neither of
  the two, the module prints one line and exits: \<open>main()\<close> is not reached, so whatever
  updates arrive, no effect on them takes place.
\<close>

theorem startup_exits_on_bad_configuration:
  assumes "(lower (getenv env ''AI_PROVIDER'' ''openai'') = ''openai''
              \<and> missing env ''OPENAI_API_KEY'')
         \<or> (lower (getenv env ''AI_PROVIDER'' ''openai'') = ''gemini''
              \<and> missing env ''GOOGLE_API_KEY'')
         \<or> (lower (getenv env ''AI_PROVIDER'' ''openai'') \<noteq> ''openai''
              \<and> lower (getenv env ''AI_PROVIDER'' ''openai'') \<noteq> ''gemini'')"
  shows "\<exists>line. line \<noteq> [] \<and> startup env = Exit [line] \<and> bot env inbound = ([line], [])"
proof -
  have "\<exists>line. line \<noteq> [] \<and> startup env = Exit [line]"
    using assms by (auto simp: startup_def Let_def)
  then show ?thesis
    by (auto simp: bot_def)
qed

theorem startup_exits_on_bad_configuration_witness:
  "bot (env_of [(''AI_PROVIDER'', ''OpenAI''), (''TELEGRAM_BOT_TOKEN'', ''123:abc'')])
       [(text_update ''hi'',
         stub_world (Returns (completion ''Hello'')) (Raises (LibraryError ''unused''))
           (Returns ()) (Returns ()) (Returns ()))]
     = ([''OPENAI_API_KEY not found in .env file.''], [])
   \<and> bot (env_of [(''AI_PROVIDER'', ''gemini''), (''GOOGLE_API_KEY'', []),
                  (''TELEGRAM_BOT_TOKEN'', ''123:abc'')])
       [(text_update ''hi'',
         stub_world (Returns (completion ''Hello'')) (Raises (LibraryError ''unused''))
           (Returns ()) (Returns ()) (Returns ()))]
     = ([''GOOGLE_API_KEY not found in .env file for Gemini.''], [])
   \<and> bot (env_of [(''AI_PROVIDER'', ''claude''), (''TELEGRAM_BOT_TOKEN'', ''123:abc'')])
       [(text_update ''hi'',
         stub_world (Returns (completion ''Hello'')) (Raises (LibraryError ''unused''))
           (Returns ()) (Returns ()) (Returns ()))]
     = ([''Error: Invalid AI_PROVIDER specified in .env: claude. Choose 'openai' or 'gemini'.''], [])"
proof -
  let ?e1 = "env_of [(''AI_PROVIDER'', ''OpenAI''), (''TELEGRAM_BOT_TOKEN'', ''123:abc'')]"
  let ?e2 = "env_of [(''AI_PROVIDER'', ''gemini''), (''GOOGLE_API_KEY'', []),
                  (''TELEGRAM_BOT_TOKEN'', ''123:abc'')]"
  let ?e3 = "env_of [(''AI_PROVIDER'', ''claude''), (''TELEGRAM_BOT_TOKEN'', ''123:abc'')]"
  let ?inb = "[(text_update ''hi'',
         stub_world (Returns (completion ''Hello'')) (Raises (LibraryError ''unused''))
           (Returns ()) (Returns ()) (Returns ()))]"
  have l1: "lower (getenv ?e1 ''AI_PROVIDER'' ''openai'') = ''openai''"
    by code_simp
  have l2: "lower (getenv ?e2 ''AI_PROVIDER'' ''openai'') = ''gemini''"
    by code_simp
  have l3: "lower (getenv ?e3 ''AI_PROVIDER'' ''openai'') = ''claude''"
    by code_simp
  have m1: "missing ?e1 ''OPENAI_API_KEY''" and m2: "missing ?e2 ''GOOGLE_API_KEY''"
    by (simp_all add: missing_def env_of_def)
  have h1: "(lower (getenv ?e1 ''AI_PROVIDER'' ''openai'') = ''openai''
              \<and> missing ?e1 ''OPENAI_API_KEY'')
         \<or> (lower (getenv ?e1 ''AI_PROVIDER'' ''openai'') = ''gemini''
              \<and> missing ?e1 ''GOOGLE_API_KEY'')
         \<or> (lower (getenv ?e1 ''AI_PROVIDER'' ''openai'') \<noteq> ''openai''
              \<and> lower (getenv ?e1 ''AI_PROVIDER'' ''openai'') \<noteq> ''gemini'')"
    using l1 m1 by simp
  have h2: "(lower (getenv ?e2 ''AI_PROVIDER'' ''openai'') = ''openai''
              \<and> missing ?e2 ''OPENAI_API_KEY'')
         \<or> (lower (getenv ?e2 ''AI_PROVIDER'' ''openai'') = ''gemini''
              \<and> missing ?e2 ''GOOGLE_API_KEY'')
         \<or> (lower (getenv ?e2 ''AI_PROVIDER'' ''openai'') \<noteq> ''openai''
              \<and> lower (getenv ?e2 ''AI_PROVIDER'' ''openai'') \<noteq> ''gemini'')"
    using l2 m2 by simp
  have h3: "(lower (getenv ?e3 ''AI_PROVIDER'' ''openai'') = ''openai''
              \<and> missing ?e3 ''OPENAI_API_KEY'')
         \<or> (lower (getenv ?e3 ''AI_PROVIDER'' ''openai'') = ''gemini''
              \<and> missing ?e3 ''GOOGLE_API_KEY'')
         \<or> (lower (getenv ?e3 ''AI_PROVIDER'' ''openai'') \<noteq> ''openai''
              \<and> lower (getenv ?e3 ''AI_PROVIDER'' ''openai'') \<noteq> ''gemini'')"
    using l3 by simp
  have s1: "startup ?e1 = Exit [''OPENAI_API_KEY not found in .env file.'']"
    using l1 m1 by (simp add: startup_def Let_def env_of_def)
  have s2: "startup ?e2 = Exit [''GOOGLE_API_KEY not found in .env file for Gemini.'']"
    using l2 m2 by (simp add: startup_def Let_def env_of_def)
  have s3: "startup ?e3 = Exit [''Error: Invalid AI_PROVIDER specified in .env: claude. Choose 'openai' or 'gemini'.'']"
    using l3 by (simp add: startup_def Let_def)
  from startup_exits_on_bad_configuration [OF h1, of ?inb]
       startup_exits_on_bad_configuration [OF h2, of ?inb]
       startup_exits_on_bad_configuration [OF h3, of ?inb] s1 s2 s3
  show ?thesis by auto
qed

end
